theory Spec2Isabelle
  imports Complex_Main "HOL-Library.Multiset"
begin

section \<open>Data model of main.go\<close>

text \<open>
  One element of \<^verbatim>\<open>coinCapAsset.Data\<close>: the three string fields the JSON decoder
  fills in. The price stays a string until \<^verbatim>\<open>getCoinCapPrice\<close> parses it.
\<close>

record assetEntry =
  ID :: string
  Symbol :: string
  PriceUsd :: string

text \<open>\<^verbatim>\<open>tokenConfig\<close>: one monitored token of the configuration file.\<close>

record tokenConfig =
  Name :: string
  Symbol :: string
  Threshold :: real

text \<open>
  The values of Go's \<^verbatim>\<open>float64\<close> are idealised as real numbers throughout: rounding,
  infinities and NaN are not modelled. Comparisons and sums below are exact.
\<close>

text \<open>
  The errors \<^verbatim>\<open>getCoinCapPrice\<close> can return, in the order of its return statements:
  the error of \<^verbatim>\<open>http.Get\<close>, the error of the JSON decoder, the error of
  \<^verbatim>\<open>strconv.ParseFloat\<close> (which carries the offending string), and the
  \<^verbatim>\<open>fmt.Errorf("price data not found for symbol %s", symbol)\<close> at the end.
\<close>

datatype error =
    FetchError
  | DecodeError
  | ParseError string
  | NotFoundError string

text \<open>The text of the not-found error, as \<^verbatim>\<open>fmt.Errorf\<close> formats it.\<close>

definition notFoundText :: "string \<Rightarrow> string" where
  "notFoundText symbol = ''price data not found for symbol '' @ symbol"

text \<open>
  What one \<^verbatim>\<open>http.Get(coincapCryptoAPI)\<close> followed by the JSON decoding yields: the
  request fails, the body does not decode, or the body decodes to the \<^verbatim>\<open>Data\<close> list.
\<close>

datatype apiReply =
    Unreachable
  | Malformed
  | Catalog "assetEntry list"

text \<open>
  \<^verbatim>\<open>strconv.ParseFloat(s, 64)\<close> is library code; the model takes it as a parameter
  that either rejects the string or returns its value.
\<close>

type_synonym parseFloat = "string \<Rightarrow> real option"

section \<open>The price client: getCoinCapPrice\<close>

text \<open>
  The \<^verbatim>\<open>for _, asset := range assetData.Data\<close> loop of \<^verbatim>\<open>getCoinCapPrice\<close>: the first
  entry whose symbol equals the requested one decides the result; falling off the end of
  the slice is the not-found error.
\<close>

fun scanAssets :: "parseFloat \<Rightarrow> assetEntry list \<Rightarrow> string \<Rightarrow> error + real" where
  "scanAssets parse [] symbol = Inl (NotFoundError symbol)"
| "scanAssets parse (asset # rest) symbol =
     (if assetEntry.Symbol asset = symbol then
        (case parse (PriceUsd asset) of
           None \<Rightarrow> Inl (ParseError (PriceUsd asset))
         | Some priceUsd \<Rightarrow> Inr priceUsd)
      else scanAssets parse rest symbol)"

fun getCoinCapPrice :: "parseFloat \<Rightarrow> apiReply \<Rightarrow> string \<Rightarrow> error + real" where
  "getCoinCapPrice parse Unreachable symbol = Inl FetchError"
| "getCoinCapPrice parse Malformed symbol = Inl DecodeError"
| "getCoinCapPrice parse (Catalog assetData) symbol = scanAssets parse assetData symbol"

subsection \<open>A sample parser for plain decimal literals\<close>

text \<open>
  An instance of the parser parameter used to run the model on concrete catalogues:
  digits, optionally followed by a point and more digits. On such literals it returns the
  number \<^verbatim>\<open>strconv.ParseFloat\<close> approximates; everything else is rejected.
\<close>

definition digitOf :: "char \<Rightarrow> nat option" where
  "digitOf c = map_of (zip ''0123456789'' [0, 1, 2, 3, 4, 5, 6, 7, 8, 9]) c"

fun digitsValue :: "nat \<Rightarrow> string \<Rightarrow> nat option" where
  "digitsValue acc [] = Some acc"
| "digitsValue acc (c # cs) =
     (case digitOf c of None \<Rightarrow> None | Some d \<Rightarrow> digitsValue (10 * acc + d) cs)"

definition parseDecimal :: parseFloat where
  "parseDecimal s =
     (let whole = takeWhile (\<lambda>c. c \<noteq> CHR ''.'') s;
          rest = dropWhile (\<lambda>c. c \<noteq> CHR ''.'') s;
          frac = drop 1 rest
      in if whole = [] \<or> (rest \<noteq> [] \<and> frac = []) then None
         else (case (digitsValue 0 whole, digitsValue 0 frac) of
                 (Some w, Some f) \<Rightarrow> Some (real w + real f / 10 ^ length frac)
               | _ \<Rightarrow> None))"

section \<open>The asset monitor: monitorToken\<close>

definition retryDelay :: nat where
  "retryDelay = 30"

text \<open>
  What a monitor does that can be seen from outside, in the order it does it: the request
  \<^verbatim>\<open>getCoinCapPrice\<close> sends, the \<^verbatim>\<open>log.Printf\<close> of a failed retrieval (token name and
  error), the \<^verbatim>\<open>log.Println\<close> of a breach (token name, price, threshold), and
  \<^verbatim>\<open>time.Sleep(n * time.Second)\<close>.
\<close>

datatype event =
    HttpGet
  | LogError string error
  | LogAlert string real real
  | Sleep nat

text \<open>
  One pass through the body of the \<^verbatim>\<open>for\<close> loop of \<^verbatim>\<open>monitorToken\<close>, given what the
  request of this pass receives. The error branch ends with \<^verbatim>\<open>continue\<close>: control goes
  back to the head of the loop, and the \<^verbatim>\<open>time.Sleep\<close> at the bottom of the body is not
  reached.
\<close>

definition monitorCycle :: "parseFloat \<Rightarrow> tokenConfig \<Rightarrow> apiReply \<Rightarrow> event list" where
  "monitorCycle parse token reply =
     HttpGet #
     (case getCoinCapPrice parse reply (tokenConfig.Symbol token) of
        Inl err \<Rightarrow> [LogError (Name token) err]
      | Inr price \<Rightarrow>
          (if price > Threshold token
           then [LogAlert (Name token) price (Threshold token)] else [])
          @ [Sleep retryDelay])"

text \<open>
  The loop never exits. It is observed for as many passes as there are replies: the
  k-th element of the list is what the k-th request receives, and the result is the
  trace of events up to the end of the last pass observed.
\<close>

fun monitorToken :: "parseFloat \<Rightarrow> tokenConfig \<Rightarrow> apiReply list \<Rightarrow> event list" where
  "monitorToken parse token [] = []"
| "monitorToken parse token (reply # later) =
     monitorCycle parse token reply @ monitorToken parse token later"

fun isAlert :: "event \<Rightarrow> bool" where
  "isAlert (LogAlert name price threshold) = True"
| "isAlert other = False"

text \<open>
  The seconds slept between consecutive requests of a trace: one number per request
  after the first, the sum of the sleeps since the request before it.
\<close>

fun waitsFrom :: "nat \<Rightarrow> event list \<Rightarrow> nat list" where
  "waitsFrom slept [] = []"
| "waitsFrom slept (HttpGet # trace) = slept # waitsFrom 0 trace"
| "waitsFrom slept (Sleep n # trace) = waitsFrom (slept + n) trace"
| "waitsFrom slept (other # trace) = waitsFrom slept trace"

definition waitsBetweenRequests :: "event list \<Rightarrow> nat list" where
  "waitsBetweenRequests trace = tl (waitsFrom 0 trace)"

section \<open>The valuation handler: handlePortfolioValue\<close>

text \<open>
  The outcome of \<^verbatim>\<open>rows.Scan(&symbol, &amount)\<close> on one row, and of
  \<^verbatim>\<open>db.Query("SELECT symbol, amount FROM portfolio")\<close>.
\<close>

datatype scanRow =
    ScanError
  | Scanned string real

datatype queryResult =
    QueryError
  | Rows "scanRow list"

text \<open>
  What the handler writes: \<^verbatim>\<open>http.Error(w, message, status)\<close>, or the JSON object
  \<^verbatim>\<open>{"total_value": v}\<close>. Encoding that object fails only for a total that is not a
  finite number or on a broken connection; with real totals and no model of the
  connection, that last branch of the handler is left out.
\<close>

datatype httpResponse =
    HttpError string nat
  | TotalValue real

definition StatusInternalServerError :: nat where
  "StatusInternalServerError = 500"

text \<open>
  \<^verbatim>\<open>cryptoAmounts[symbol] += amount\<close> on a Go map: a missing key reads as the zero value.
\<close>

definition addAmount :: "(string \<rightharpoonup> real) \<Rightarrow> string \<Rightarrow> real \<Rightarrow> (string \<rightharpoonup> real)" where
  "addAmount cryptoAmounts symbol amount =
     cryptoAmounts(symbol \<mapsto>
       (case cryptoAmounts symbol of None \<Rightarrow> 0 | Some held \<Rightarrow> held) + amount)"

text \<open>The \<^verbatim>\<open>for rows.Next()\<close> loop; \<open>None\<close> is the early return on a scan error.\<close>

fun populateAmounts ::
  "(string \<rightharpoonup> real) \<Rightarrow> scanRow list \<Rightarrow> (string \<rightharpoonup> real) option" where
  "populateAmounts cryptoAmounts [] = Some cryptoAmounts"
| "populateAmounts cryptoAmounts (ScanError # rows) = None"
| "populateAmounts cryptoAmounts (Scanned symbol amount # rows) =
     populateAmounts (addAmount cryptoAmounts symbol amount) rows"

text \<open>
  The \<^verbatim>\<open>for symbol, amount := range cryptoAmounts\<close> loop. Go leaves the order in which
  \<^verbatim>\<open>range\<close> visits the keys of a map unspecified; the model takes the order as the list
  \<open>visit\<close>. Every call of \<^verbatim>\<open>getCoinCapPrice\<close> sends a request of its own: \<open>api n\<close> is
  what request number \<open>n\<close> of this run receives, and the second component of the result
  counts the requests sent. \<open>None\<close> is the early return on a price error. A symbol that is
  not a key of the map is never visited by \<^verbatim>\<open>range\<close>; the model passes over it.
\<close>

fun totalValueLoop ::
  "parseFloat \<Rightarrow> (nat \<Rightarrow> apiReply) \<Rightarrow> nat \<Rightarrow> (string \<rightharpoonup> real) \<Rightarrow> string list \<Rightarrow> real
     \<Rightarrow> real option \<times> nat" where
  "totalValueLoop parse api n cryptoAmounts [] totalValue = (Some totalValue, n)"
| "totalValueLoop parse api n cryptoAmounts (symbol # rest) totalValue =
     (case cryptoAmounts symbol of
        None \<Rightarrow> totalValueLoop parse api n cryptoAmounts rest totalValue
      | Some amount \<Rightarrow>
          (case getCoinCapPrice parse (api n) symbol of
             Inl err \<Rightarrow> (None, Suc n)
           | Inr price \<Rightarrow>
               totalValueLoop parse api (Suc n) cryptoAmounts rest (totalValue + price * amount)))"

definition handlePortfolioValue ::
  "parseFloat \<Rightarrow> queryResult \<Rightarrow> (nat \<Rightarrow> apiReply) \<Rightarrow> string list \<Rightarrow> httpResponse \<times> nat" where
  "handlePortfolioValue parse query api visit =
     (case query of
        QueryError \<Rightarrow> (HttpError ''Error fetching portfolio data'' StatusInternalServerError, 0)
      | Rows rows \<Rightarrow>
          (case populateAmounts Map.empty rows of
             None \<Rightarrow> (HttpError ''Error scanning portfolio data'' StatusInternalServerError, 0)
           | Some cryptoAmounts \<Rightarrow>
               (case totalValueLoop parse api 0 cryptoAmounts visit 0 of
                  (None, n) \<Rightarrow>
                    (HttpError ''Error fetching cryptocurrency price'' StatusInternalServerError, n)
                | (Some totalValue, n) \<Rightarrow> (TotalValue totalValue, n))))"

text \<open>
  \<open>visit\<close> is an order in which \<^verbatim>\<open>range\<close> can visit a map: every key once.
\<close>

definition rangeOrder :: "(string \<rightharpoonup> real) \<Rightarrow> string list \<Rightarrow> bool" where
  "rangeOrder cryptoAmounts visit = (distinct visit \<and> set visit = dom cryptoAmounts)"

text \<open>
  A holdings sequence is the list of (symbol, amount) rows of the ledger. Valuating it is
  running the handler on a query that returns these rows and scans each of them.
\<close>

definition rowsOf :: "(string \<times> real) list \<Rightarrow> queryResult" where
  "rowsOf holdings = Rows (map (\<lambda>(symbol, amount). Scanned symbol amount) holdings)"

definition valuate ::
  "parseFloat \<Rightarrow> (nat \<Rightarrow> apiReply) \<Rightarrow> (string \<times> real) list \<Rightarrow> string list
     \<Rightarrow> httpResponse \<times> nat" where
  "valuate parse api holdings visit = handlePortfolioValue parse (rowsOf holdings) api visit"

subsection \<open>The specification's view of a holdings sequence\<close>

text \<open>
  The total quantity of a symbol is the sum of the amounts of its rows; the
  symbol-to-total-quantity mapping is defined on the symbols that have a row.
\<close>

definition totalQuantity :: "(string \<times> real) list \<Rightarrow> string \<Rightarrow> real" where
  "totalQuantity holdings symbol =
     sum_list (map snd (filter (\<lambda>row. fst row = symbol) holdings))"

definition symbolTotals :: "(string \<times> real) list \<Rightarrow> (string \<rightharpoonup> real)" where
  "symbolTotals holdings symbol =
     (if symbol \<in> fst ` set holdings then Some (totalQuantity holdings symbol) else None)"

subsection \<open>The fetch-once variant of the specification\<close>






subsection \<open>A sample catalogue\<close>

definition sampleCatalog :: "assetEntry list" where
  "sampleCatalog =
     [\<lparr>ID = ''bitcoin'', Symbol = ''BTC'', PriceUsd = ''50000''\<rparr>,
      \<lparr>ID = ''ethereum'', Symbol = ''ETH'', PriceUsd = ''3000''\<rparr>]"

definition bitcoinWatch :: tokenConfig where
  "bitcoinWatch = \<lparr>Name = ''Bitcoin'', Symbol = ''BTC'', Threshold = 40000\<rparr>"

section \<open>Properties of the price client\<close>

lemmas sample_simps = sampleCatalog_def parseDecimal_def digitOf_def

lemma scanAssets_absent:
  "symbol \<notin> assetEntry.Symbol ` set assetData \<Longrightarrow>
   scanAssets parse assetData symbol = Inl (NotFoundError symbol)"
  by (induction assetData) auto

lemma scanAssets_first_match:
  "symbol \<notin> assetEntry.Symbol ` set before \<Longrightarrow> assetEntry.Symbol asset = symbol \<Longrightarrow>
   scanAssets parse (before @ asset # after) symbol =
     (case parse (PriceUsd asset) of
        None \<Rightarrow> Inl (ParseError (PriceUsd asset))
      | Some priceUsd \<Rightarrow> Inr priceUsd)"
  by (induction before) auto

text \<open>
  Claim C5. When no entry of the decoded catalogue carries the requested symbol,
  \<^verbatim>\<open>getCoinCapPrice\<close> returns the not-found error for that symbol; in particular it
  does not return a price, and so never the price zero.
\<close>

theorem getCoinCapPrice_absent_symbol:
  assumes "symbol \<notin> assetEntry.Symbol ` set assetData"
  shows "getCoinCapPrice parse (Catalog assetData) symbol = Inl (NotFoundError symbol)
       \<and> getCoinCapPrice parse (Catalog assetData) symbol \<noteq> Inr 0
       \<and> (\<nexists>price. getCoinCapPrice parse (Catalog assetData) symbol = Inr price)"
  using assms by (simp add: scanAssets_absent)

theorem getCoinCapPrice_absent_symbol_witness:
  "''DOGE'' \<notin> assetEntry.Symbol `
       set [\<lparr>ID = ''bitcoin'', Symbol = ''BTC'', PriceUsd = ''50000''\<rparr>,
            \<lparr>ID = ''ethereum'', Symbol = ''ETH'', PriceUsd = ''3000''\<rparr>]
   \<and> getCoinCapPrice parseDecimal
       (Catalog [\<lparr>ID = ''bitcoin'', Symbol = ''BTC'', PriceUsd = ''50000''\<rparr>,
                 \<lparr>ID = ''ethereum'', Symbol = ''ETH'', PriceUsd = ''3000''\<rparr>]) ''DOGE''
     = Inl (NotFoundError ''DOGE'')"
proof -
  have absent: "''DOGE'' \<notin> assetEntry.Symbol `
       set [\<lparr>ID = ''bitcoin'', Symbol = ''BTC'', PriceUsd = ''50000''\<rparr>,
            \<lparr>ID = ''ethereum'', Symbol = ''ETH'', PriceUsd = ''3000''\<rparr>]"
    by simp
  from getCoinCapPrice_absent_symbol [OF absent, of parseDecimal] absent
  show ?thesis by blast
qed

text \<open>
  Claim C7. When the entry selected for the requested symbol (the first one carrying it)
  has a price string the parser rejects, \<^verbatim>\<open>getCoinCapPrice\<close> returns the parse error
  and no price. The bad entry is not skipped: entries after it are not looked at, also
  when one of them carries the same symbol with a price that parses.
\<close>

theorem getCoinCapPrice_unparsable_price:
  assumes "symbol \<notin> assetEntry.Symbol ` set before"
      and "assetEntry.Symbol asset = symbol"
      and "parse (PriceUsd asset) = None"
  shows "getCoinCapPrice parse (Catalog (before @ asset # after)) symbol
           = Inl (ParseError (PriceUsd asset))
       \<and> (\<nexists>price. getCoinCapPrice parse (Catalog (before @ asset # after)) symbol = Inr price)"
  using assms by (simp add: scanAssets_first_match)

theorem getCoinCapPrice_unparsable_price_witness:
  "''ETH'' \<notin> assetEntry.Symbol ` set [\<lparr>ID = ''bitcoin'', Symbol = ''BTC'', PriceUsd = ''50000''\<rparr>]
   \<and> parseDecimal ''n/a'' = None
   \<and> parseDecimal ''3000'' = Some 3000
   \<and> getCoinCapPrice parseDecimal
        (Catalog ([\<lparr>ID = ''bitcoin'', Symbol = ''BTC'', PriceUsd = ''50000''\<rparr>]
                  @ \<lparr>ID = ''ethereum'', Symbol = ''ETH'', PriceUsd = ''n/a''\<rparr>
                  # [\<lparr>ID = ''ethereum-2'', Symbol = ''ETH'', PriceUsd = ''3000''\<rparr>])) ''ETH''
       = Inl (ParseError ''n/a'')"
proof -
  have before: "''ETH'' \<notin> assetEntry.Symbol `
      set [\<lparr>ID = ''bitcoin'', Symbol = ''BTC'', PriceUsd = ''50000''\<rparr>]"
    by simp
  have selected: "assetEntry.Symbol \<lparr>ID = ''ethereum'', Symbol = ''ETH'', PriceUsd = ''n/a''\<rparr> = ''ETH''"
    by simp
  have bad: "parseDecimal ''n/a'' = None"
    by (simp add: parseDecimal_def digitOf_def)
  have bad': "parseDecimal (PriceUsd \<lparr>ID = ''ethereum'', Symbol = ''ETH'', PriceUsd = ''n/a''\<rparr>) = None"
    using bad by simp
  have good: "parseDecimal ''3000'' = Some 3000"
    by (simp add: parseDecimal_def digitOf_def)
  from getCoinCapPrice_unparsable_price
      [where parse = parseDecimal
         and asset = "\<lparr>ID = ''ethereum'', Symbol = ''ETH'', PriceUsd = ''n/a''\<rparr>"
         and after = "[\<lparr>ID = ''ethereum-2'', Symbol = ''ETH'', PriceUsd = ''3000''\<rparr>]",
       OF before selected bad'] before bad good
  show ?thesis by simp
qed

text \<open>
  Claim C9. The lookup compares symbols by equality of strings and returns the price of
  the first entry whose symbol equals the requested one: entries before it with another
  symbol (one that differs only in letter case included) are passed over, and whatever
  follows it, duplicates of the symbol included, has no influence on the result.
\<close>

theorem getCoinCapPrice_first_exact_match:
  assumes "symbol \<notin> assetEntry.Symbol ` set before"
      and "assetEntry.Symbol asset = symbol"
  shows "getCoinCapPrice parse (Catalog (before @ asset # after)) symbol =
           (case parse (PriceUsd asset) of
              None \<Rightarrow> Inl (ParseError (PriceUsd asset))
            | Some priceUsd \<Rightarrow> Inr priceUsd)"
  using assms by (simp add: scanAssets_first_match)

theorem getCoinCapPrice_first_exact_match_witness:
  "''BTC'' \<notin> assetEntry.Symbol ` set [\<lparr>ID = ''lower'', Symbol = ''btc'', PriceUsd = ''1''\<rparr>]
   \<and> getCoinCapPrice parseDecimal
        (Catalog ([\<lparr>ID = ''lower'', Symbol = ''btc'', PriceUsd = ''1''\<rparr>]
                  @ \<lparr>ID = ''bitcoin'', Symbol = ''BTC'', PriceUsd = ''50000''\<rparr>
                  # [\<lparr>ID = ''later'', Symbol = ''BTC'', PriceUsd = ''2''\<rparr>])) ''BTC''
       = Inr 50000
   \<and> getCoinCapPrice parseDecimal
        (Catalog [\<lparr>ID = ''bitcoin'', Symbol = ''BTC'', PriceUsd = ''50000''\<rparr>]) ''btc''
       = Inl (NotFoundError ''btc'')"
proof -
  have before: "''BTC'' \<notin> assetEntry.Symbol `
      set [\<lparr>ID = ''lower'', Symbol = ''btc'', PriceUsd = ''1''\<rparr>]"
    by simp
  have selected: "assetEntry.Symbol \<lparr>ID = ''bitcoin'', Symbol = ''BTC'', PriceUsd = ''50000''\<rparr> = ''BTC''"
    by simp
  have lower: "getCoinCapPrice parseDecimal
        (Catalog [\<lparr>ID = ''bitcoin'', Symbol = ''BTC'', PriceUsd = ''50000''\<rparr>]) ''btc''
       = Inl (NotFoundError ''btc'')"
    by simp
  from getCoinCapPrice_first_exact_match [OF before selected, of parseDecimal
      "[\<lparr>ID = ''later'', Symbol = ''BTC'', PriceUsd = ''2''\<rparr>]"] before lower
  show ?thesis by (simp add: parseDecimal_def digitOf_def)
qed

section \<open>Properties of the asset monitor\<close>

text \<open>
  Claim C1, which the code does not meet: a monitor whose retrieval fails should wait the
  fixed 30 seconds before its next request. In the run below the first two requests fail
  and the third retrieves a price. The errors are logged, no comparison is made for them
  and the third request is sent, but no sleep separates the three requests: the error
  branch leaves the pass before the sleep. A run of three retrievals that succeed waits
  30 seconds between requests.
\<close>

theorem monitorToken_retries_without_sleep:
  "monitorToken parseDecimal bitcoinWatch [Unreachable, Malformed, Catalog sampleCatalog]
     = [HttpGet, LogError ''Bitcoin'' FetchError,
        HttpGet, LogError ''Bitcoin'' DecodeError,
        HttpGet, LogAlert ''Bitcoin'' 50000 40000, Sleep 30]
   \<and> waitsBetweenRequests
         (monitorToken parseDecimal bitcoinWatch [Unreachable, Malformed, Catalog sampleCatalog])
     = [0, 0]
   \<and> waitsBetweenRequests
         (monitorToken parseDecimal bitcoinWatch
            [Catalog sampleCatalog, Catalog sampleCatalog, Catalog sampleCatalog])
     = [30, 30]"
  by (simp add: monitorCycle_def bitcoinWatch_def retryDelay_def waitsBetweenRequests_def
        sample_simps)

text \<open>
  Claim C4. In a pass that retrieves a price, exactly one alert is logged when the price
  is strictly greater than the threshold, and none otherwise; a price equal to the
  threshold raises no alert.
\<close>

theorem monitorCycle_alert_iff_above:
  assumes "getCoinCapPrice parse reply (tokenConfig.Symbol token) = Inr price"
  shows "filter isAlert (monitorCycle parse token reply) =
           (if Threshold token < price
            then [LogAlert (Name token) price (Threshold token)] else [])"
  using assms by (simp add: monitorCycle_def)

theorem monitorCycle_alert_iff_above_witness:
  "getCoinCapPrice parseDecimal (Catalog sampleCatalog) ''BTC'' = Inr 50000
   \<and> filter isAlert (monitorCycle parseDecimal
        \<lparr>Name = ''Bitcoin'', Symbol = ''BTC'', Threshold = 50000\<rparr> (Catalog sampleCatalog)) = []
   \<and> filter isAlert (monitorCycle parseDecimal
        \<lparr>Name = ''Bitcoin'', Symbol = ''BTC'', Threshold = 49999.99\<rparr> (Catalog sampleCatalog))
       = [LogAlert ''Bitcoin'' 50000 49999.99]"
proof -
  have fetched: "getCoinCapPrice parseDecimal (Catalog sampleCatalog) ''BTC'' = Inr 50000"
    by (simp add: sample_simps)
  have equal: "getCoinCapPrice parseDecimal (Catalog sampleCatalog)
      (tokenConfig.Symbol \<lparr>Name = ''Bitcoin'', Symbol = ''BTC'', Threshold = 50000\<rparr>) = Inr 50000"
    using fetched by simp
  have above: "getCoinCapPrice parseDecimal (Catalog sampleCatalog)
      (tokenConfig.Symbol \<lparr>Name = ''Bitcoin'', Symbol = ''BTC'', Threshold = 49999.99\<rparr>) = Inr 50000"
    using fetched by simp
  from monitorCycle_alert_iff_above [OF equal] monitorCycle_alert_iff_above [OF above] fetched
  show ?thesis by simp
qed

text \<open>
  Every pass sends one request, whatever the earlier passes received: after any number
  of failed retrievals the next request is still sent.
\<close>

theorem monitorToken_request_per_pass:
  "length (filter (\<lambda>e. e = HttpGet) (monitorToken parse token replies)) = length replies"
proof (induction replies)
  case Nil
  then show ?case by simp
next
  case (Cons reply later)
  have "length (filter (\<lambda>e. e = HttpGet) (monitorCycle parse token reply)) = 1"
    by (simp add: monitorCycle_def split: sum.splits)
  with Cons show ?case by simp
qed

text \<open>
  A pass whose retrieval fails logs the error under the token's name and raises no
  alert: the comparison with the threshold is not made.
\<close>

theorem monitorCycle_failure_logged:
  assumes "getCoinCapPrice parse reply (tokenConfig.Symbol token) = Inl err"
  shows "LogError (Name token) err \<in> set (monitorCycle parse token reply)
       \<and> filter isAlert (monitorCycle parse token reply) = []"
  using assms by (simp add: monitorCycle_def)

theorem monitorCycle_failure_logged_witness:
  "getCoinCapPrice parseDecimal Unreachable (tokenConfig.Symbol bitcoinWatch) = Inl FetchError
   \<and> LogError ''Bitcoin'' FetchError \<in> set (monitorCycle parseDecimal bitcoinWatch Unreachable)
   \<and> filter isAlert (monitorCycle parseDecimal bitcoinWatch Unreachable) = []"
proof -
  have failed: "getCoinCapPrice parseDecimal Unreachable (tokenConfig.Symbol bitcoinWatch)
      = Inl FetchError"
    by simp
  from monitorCycle_failure_logged [OF failed] failed
  show ?thesis by (simp add: bitcoinWatch_def)
qed

section \<open>Properties of the valuation handler\<close>

subsection \<open>Grouping\<close>

lemma totalQuantity_absent:
  "symbol \<notin> fst ` set holdings \<Longrightarrow> totalQuantity holdings symbol = 0"
  by (induction holdings) (auto simp: totalQuantity_def)

lemma totalQuantity_Cons:
  "totalQuantity ((symbol', amount) # holdings) symbol =
     (if symbol' = symbol then amount else 0) + totalQuantity holdings symbol"
  by (simp add: totalQuantity_def)

lemma populateAmounts_scanned:
  "populateAmounts cryptoAmounts (map (\<lambda>(symbol, amount). Scanned symbol amount) holdings) =
     Some (\<lambda>symbol.
       if symbol \<in> fst ` set holdings
       then Some ((case cryptoAmounts symbol of None \<Rightarrow> 0 | Some held \<Rightarrow> held)
                  + totalQuantity holdings symbol)
       else cryptoAmounts symbol)"
proof (induction holdings arbitrary: cryptoAmounts)
  case Nil
  then show ?case by simp
next
  case (Cons row holdings)
  obtain symbol amount where row: "row = (symbol, amount)" by (cases row)
  show ?case
    unfolding row
    by (simp add: Cons.IH)
      (auto simp: addAmount_def totalQuantity_Cons totalQuantity_absent fun_eq_iff)
qed

lemma populateAmounts_symbolTotals:
  "populateAmounts Map.empty (map (\<lambda>(symbol, amount). Scanned symbol amount) holdings) =
     Some (symbolTotals holdings)"
  by (simp add: populateAmounts_scanned symbolTotals_def fun_eq_iff)

lemma dom_symbolTotals: "dom (symbolTotals holdings) = fst ` set holdings"
  by (auto simp: symbolTotals_def dom_def)


lemma totalValueLoop_constant:
  assumes "set visit \<subseteq> dom cryptoAmounts"
  shows "fst (totalValueLoop parse (\<lambda>k. reply) n cryptoAmounts visit totalValue) =
           (if \<exists>symbol \<in> set visit. isl (getCoinCapPrice parse reply symbol) then None
            else Some (totalValue +
                   (\<Sum>symbol\<leftarrow>visit. projr (getCoinCapPrice parse reply symbol)
                                        * the (cryptoAmounts symbol))))"
  using assms
proof (induction visit arbitrary: n totalValue)
  case Nil
  then show ?case by simp
next
  case (Cons symbol rest)
  then obtain amount where "cryptoAmounts symbol = Some amount" by auto
  with Cons show ?case
    by (cases "getCoinCapPrice parse reply symbol") (simp_all add: algebra_simps)
qed

lemma rangeOrder_symbolTotals:
  "rangeOrder (symbolTotals holdings) visit = (distinct visit \<and> set visit = fst ` set holdings)"
  by (simp add: rangeOrder_def dom_symbolTotals)

lemma symbolTotals_present:
  "symbol \<in> fst ` set holdings \<Longrightarrow> the (symbolTotals holdings symbol) = totalQuantity holdings symbol"
  by (simp add: symbolTotals_def)

lemma valuate_totalValueLoop:
  "valuate parse api holdings visit =
     (case totalValueLoop parse api 0 (symbolTotals holdings) visit 0 of
        (None, n) \<Rightarrow>
          (HttpError ''Error fetching cryptocurrency price'' StatusInternalServerError, n)
      | (Some totalValue, n) \<Rightarrow> (TotalValue totalValue, n))"
  by (simp add: valuate_def rowsOf_def handlePortfolioValue_def populateAmounts_symbolTotals)

lemma sum_list_symbolTotals:
  assumes "rangeOrder (symbolTotals holdings) visit"
  shows "(\<Sum>symbol\<leftarrow>visit. price symbol * the (symbolTotals holdings symbol)) =
         (\<Sum>symbol \<in> fst ` set holdings. price symbol * totalQuantity holdings symbol)"
proof -
  from assms have d: "distinct visit" and s: "set visit = fst ` set holdings"
    by (simp_all add: rangeOrder_symbolTotals)
  have "(\<Sum>symbol\<leftarrow>visit. price symbol * the (symbolTotals holdings symbol)) =
        (\<Sum>symbol \<in> set visit. price symbol * the (symbolTotals holdings symbol))"
    using d by (rule sum_list_distinct_conv_sum_set)
  also have "\<dots> = (\<Sum>symbol \<in> fst ` set holdings. price symbol * totalQuantity holdings symbol)"
    unfolding s by (rule sum.cong) (simp_all add: symbolTotals_present)
  finally show ?thesis .
qed

lemma valuate_constant:
  assumes "rangeOrder (symbolTotals holdings) visit"
  shows "fst (valuate parse (\<lambda>k. reply) holdings visit) =
           (if \<exists>symbol \<in> fst ` set holdings. isl (getCoinCapPrice parse reply symbol)
            then HttpError ''Error fetching cryptocurrency price'' StatusInternalServerError
            else TotalValue (\<Sum>symbol \<in> fst ` set holdings.
                   projr (getCoinCapPrice parse reply symbol) * totalQuantity holdings symbol))"
proof -
  from assms have sub: "set visit \<subseteq> dom (symbolTotals holdings)"
    and s: "set visit = fst ` set holdings"
    by (simp_all add: rangeOrder_def dom_symbolTotals)
  obtain r n where loop: "totalValueLoop parse (\<lambda>k. reply) 0 (symbolTotals holdings) visit 0 = (r, n)"
    by (cases "totalValueLoop parse (\<lambda>k. reply) 0 (symbolTotals holdings) visit 0")
  have r: "r = (if \<exists>symbol \<in> set visit. isl (getCoinCapPrice parse reply symbol) then None
            else Some (0 + (\<Sum>symbol\<leftarrow>visit. projr (getCoinCapPrice parse reply symbol)
                                        * the (symbolTotals holdings symbol))))"
    using totalValueLoop_constant [OF sub, of parse reply 0 0] loop by simp
  show ?thesis
    using r loop sum_list_symbolTotals [OF assms, of "\<lambda>symbol. projr (getCoinCapPrice parse reply symbol)"]
    by (simp add: valuate_totalValueLoop s)
qed






text \<open>
  Claim C10. With no holdings the handler answers with the total 0 and sends no request,
  whatever the price source would have replied. An empty map can only be visited in the
  empty order; the statement holds for every list, since a symbol that is not a key is
  passed over without a request.
\<close>

theorem valuate_empty_holdings:
  "valuate parse api [] visit = (TotalValue 0, 0)"
proof -
  have "totalValueLoop parse api n Map.empty visit totalValue = (Some totalValue, n)"
    for n totalValue
    by (induction visit) simp_all
  then show ?thesis
    by (simp add: valuate_def rowsOf_def handlePortfolioValue_def)
qed

text \<open>
  Claim C2, as amended. When the lookup of one of the symbols held fails against the
  catalogue source, for whatever reason, the handler answers with the fixed response
  \<^verbatim>\<open>http.Error(w, "Error fetching cryptocurrency price", 500)\<close> and no total; the
  response does not carry the error of the lookup. A retry against the same source
  is answered the same way, whatever order its visit of the map takes.
\<close>

theorem valuate_lookup_failure:
  assumes "rangeOrder (symbolTotals holdings) visit"
      and "rangeOrder (symbolTotals holdings) retry"
      and "symbol \<in> fst ` set holdings"
      and "getCoinCapPrice parse reply symbol = Inl err"
  shows "fst (valuate parse (\<lambda>k. reply) holdings visit)
           = HttpError ''Error fetching cryptocurrency price'' StatusInternalServerError
       \<and> fst (valuate parse (\<lambda>k. reply) holdings retry)
           = fst (valuate parse (\<lambda>k. reply) holdings visit)"
proof -
  from assms(3,4) have "\<exists>symbol \<in> fst ` set holdings. isl (getCoinCapPrice parse reply symbol)"
    by force
  then show ?thesis
    by (simp add: valuate_constant [OF assms(1)] valuate_constant [OF assms(2)])
qed

theorem valuate_lookup_failure_witness:
  "rangeOrder (symbolTotals [(''BTC'', 0.5), (''DOGE'', 100)]) [''BTC'', ''DOGE'']
   \<and> rangeOrder (symbolTotals [(''BTC'', 0.5), (''DOGE'', 100)]) [''DOGE'', ''BTC'']
   \<and> getCoinCapPrice parseDecimal (Catalog sampleCatalog) ''DOGE'' = Inl (NotFoundError ''DOGE'')
   \<and> valuate parseDecimal (\<lambda>k. Catalog sampleCatalog) [(''BTC'', 0.5), (''DOGE'', 100)]
         [''BTC'', ''DOGE'']
       = (HttpError ''Error fetching cryptocurrency price'' 500, 2)
   \<and> valuate parseDecimal (\<lambda>k. Catalog sampleCatalog) [(''BTC'', 0.5), (''DOGE'', 100)]
         [''DOGE'', ''BTC'']
       = (HttpError ''Error fetching cryptocurrency price'' 500, 1)"
proof -
  have order: "rangeOrder (symbolTotals [(''BTC'', 0.5), (''DOGE'', 100)]) [''BTC'', ''DOGE'']"
    by (auto simp: rangeOrder_symbolTotals)
  have retry: "rangeOrder (symbolTotals [(''BTC'', 0.5), (''DOGE'', 100)]) [''DOGE'', ''BTC'']"
    by (auto simp: rangeOrder_symbolTotals)
  have held: "''DOGE'' \<in> fst ` set [(''BTC'', 0.5 :: real), (''DOGE'', 100)]"
    by simp
  have absent: "getCoinCapPrice parseDecimal (Catalog sampleCatalog) ''DOGE''
      = Inl (NotFoundError ''DOGE'')"
    by (simp add: sample_simps)
  have requests:
    "snd (valuate parseDecimal (\<lambda>k. Catalog sampleCatalog) [(''BTC'', 0.5), (''DOGE'', 100)]
         [''BTC'', ''DOGE'']) = 2"
    "snd (valuate parseDecimal (\<lambda>k. Catalog sampleCatalog) [(''BTC'', 0.5), (''DOGE'', 100)]
         [''DOGE'', ''BTC'']) = 1"
    by (simp_all add: valuate_totalValueLoop symbolTotals_def sample_simps)
  from valuate_lookup_failure [OF order retry held absent] order retry absent requests
  show ?thesis
    by (simp add: StatusInternalServerError_def prod_eq_iff)
qed

text \<open>
  The claim as stated has the call fail with the error of the lookup. A symbol missing
  from the catalogue and an unreachable source are different errors, the first with the
  text \<^verbatim>\<open>price data not found for symbol DOGE\<close>; the handler answers both with the
  same response, whose message is neither.
\<close>

theorem valuate_error_not_surfaced:
  "getCoinCapPrice parseDecimal (Catalog sampleCatalog) ''DOGE'' = Inl (NotFoundError ''DOGE'')
   \<and> getCoinCapPrice parseDecimal Unreachable ''DOGE'' = Inl FetchError
   \<and> fst (valuate parseDecimal (\<lambda>k. Catalog sampleCatalog) [(''DOGE'', 100)] [''DOGE''])
       = HttpError ''Error fetching cryptocurrency price'' 500
   \<and> fst (valuate parseDecimal (\<lambda>k. Unreachable) [(''DOGE'', 100)] [''DOGE''])
       = fst (valuate parseDecimal (\<lambda>k. Catalog sampleCatalog) [(''DOGE'', 100)] [''DOGE''])
   \<and> notFoundText ''DOGE'' \<noteq> ''Error fetching cryptocurrency price''"
  by (simp add: valuate_totalValueLoop symbolTotals_def sample_simps
        StatusInternalServerError_def notFoundText_def)

lemma totalValueLoop_failure_at:
  assumes "set visit \<subseteq> dom cryptoAmounts"
      and "i < length visit"
      and "getCoinCapPrice parse (api (n + i)) (visit ! i) = Inl err"
  shows "fst (totalValueLoop parse api n cryptoAmounts visit totalValue) = None"
  using assms
proof (induction visit arbitrary: n i totalValue)
  case Nil
  then show ?case by simp
next
  case (Cons symbol rest)
  then obtain amount where held: "cryptoAmounts symbol = Some amount" by auto
  show ?case
  proof (cases i)
    case 0
    with Cons.prems held show ?thesis by simp
  next
    case (Suc j)
    show ?thesis
    proof (cases "getCoinCapPrice parse (api n) symbol")
      case (Inl e)
      with held show ?thesis by simp
    next
      case (Inr price)
      have "fst (totalValueLoop parse api (Suc n) cryptoAmounts rest (totalValue + price * amount))
          = None"
        using Cons.prems Suc by (intro Cons.IH [of j "Suc n"]) simp_all
      with held Inr show ?thesis by simp
    qed
  qed
qed

text \<open>
  The answer is the same fixed error when the source changes between requests: it is
  enough that one request of the visit, taken at its position, fails for the symbol
  visited there.
\<close>

theorem valuate_any_failed_request:
  assumes "rangeOrder (symbolTotals holdings) visit"
      and "i < length visit"
      and "getCoinCapPrice parse (api i) (visit ! i) = Inl err"
  shows "fst (valuate parse api holdings visit)
           = HttpError ''Error fetching cryptocurrency price'' StatusInternalServerError"
proof -
  from assms(1) have sub: "set visit \<subseteq> dom (symbolTotals holdings)"
    by (simp add: rangeOrder_def)
  have "fst (totalValueLoop parse api 0 (symbolTotals holdings) visit 0) = None"
    using sub assms(2,3)
    by (intro totalValueLoop_failure_at [where i = i and err = err]) simp_all
  then show ?thesis
    by (cases "totalValueLoop parse api 0 (symbolTotals holdings) visit 0")
      (simp add: valuate_totalValueLoop)
qed

theorem valuate_any_failed_request_witness:
  "rangeOrder (symbolTotals [(''BTC'', 0.5), (''ETH'', 2)]) [''BTC'', ''ETH'']
   \<and> getCoinCapPrice parseDecimal Malformed ([''BTC'', ''ETH''] ! 1) = Inl DecodeError
   \<and> valuate parseDecimal (\<lambda>k. if k = 0 then Catalog sampleCatalog else Malformed)
        [(''BTC'', 0.5), (''ETH'', 2)] [''BTC'', ''ETH'']
       = (HttpError ''Error fetching cryptocurrency price'' 500, 2)"
proof -
  have order: "rangeOrder (symbolTotals [(''BTC'', 0.5), (''ETH'', 2)]) [''BTC'', ''ETH'']"
    by (auto simp: rangeOrder_symbolTotals)
  have second: "(1::nat) < length [''BTC'', ''ETH'']" by simp
  have failed: "getCoinCapPrice parseDecimal
      ((\<lambda>k. if k = 0 then Catalog sampleCatalog else Malformed) (1::nat)) ([''BTC'', ''ETH''] ! 1)
      = Inl DecodeError"
    by simp
  have requests: "snd (valuate parseDecimal (\<lambda>k. if k = 0 then Catalog sampleCatalog else Malformed)
        [(''BTC'', 0.5), (''ETH'', 2)] [''BTC'', ''ETH'']) = 2"
    by (simp add: valuate_totalValueLoop symbolTotals_def sample_simps)
  from valuate_any_failed_request
      [where parse = parseDecimal
         and api = "\<lambda>k. if k = 0 then Catalog sampleCatalog else Malformed"
         and i = 1 and err = DecodeError, OF order second] failed order requests
  show ?thesis by (simp add: StatusInternalServerError_def prod_eq_iff)
qed

subsection \<open>The fetch-once variant\<close>







end
